theory Spec2Isabelle
  imports Main "HOL-Library.AList"
begin

section \<open>The user hook of the storefront: \<^verbatim>\<open>useUserFactory.ts\<close>\<close>

text \<open>
  \<^verbatim>\<open>useUserFactory(factoryParams)\<close> returns \<^verbatim>\<open>useUser\<close>, which builds a hook object over
  three shared reactive cells (\<^verbatim>\<open>user\<close>, \<^verbatim>\<open>loading\<close>, \<^verbatim>\<open>error\<close>) and seven asynchronous
  operations, each of which calls one injected implementation inside
  \<^verbatim>\<open>try / catch / finally\<close>.

  The embedding follows the file statement by statement. A statement is a function from
  the state of the hook to a completion (normal, a thrown value, or suspended) and the
  next state;
  blocks, \<^verbatim>\<open>try / catch\<close> and \<^verbatim>\<open>finally\<close> are combinators on statements.
  The only suspension point of an operation is the single \<^verbatim>\<open>await\<close> of its injected
  implementation. The promise of the implementation is a function of the argument object
  it is called with: it is fulfilled, rejected, or still pending. With a settled promise
  the invocation is run from its first statement to its last without another operation
  of the same hook running in between; with a pending one the run stops at the
  \<^verbatim>\<open>await\<close>, in the state the hook is in while the invocation waits.
\<close>

subsection \<open>Values\<close>

text \<open>
  The type parameters \<^verbatim>\<open>USER\<close>, \<^verbatim>\<open>UPDATE_USER_PARAMS\<close>, \<^verbatim>\<open>REGISTER_USER_PARAMS\<close> are
  erased at run time, the errors caught are whatever the implementation throws, and
  \<^verbatim>\<open>UseUserUpdateParams\<close> and \<^verbatim>\<open>UseUserRegisterParams\<close> are \<^verbatim>\<open>any\<close>: the cells hold plain
  JavaScript values. An object is its list of own properties in insertion order.
\<close>

datatype jsval =
    JUndefined
  | JNull
  | JBool bool
  | JNum int
  | JStr string
  | JObj "(string \<times> jsval) list"

type_synonym jsobj = "(string \<times> jsval) list"


subsection \<open>The shared cells\<close>

text \<open>The keys of \<^verbatim>\<open>CustomUseUserErrors\<close>, in the order of \<^verbatim>\<open>errorsFactory\<close>.\<close>

datatype opname = UpdateUser | Register | Login | Logout | ChangePassword | Load | UpdateEmail

record errors =
  err_updateUser :: jsval
  err_register :: jsval
  err_login :: jsval
  err_logout :: jsval
  err_changePassword :: jsval
  err_load :: jsval
  err_updateEmail :: jsval

definition errorsFactory :: errors where
  "errorsFactory = \<lparr>
     err_updateUser = JNull,
     err_register = JNull,
     err_login = JNull,
     err_logout = JNull,
     err_changePassword = JNull,
     err_load = JNull,
     err_updateEmail = JNull \<rparr>"

text \<open>
  What the collaborators and the watchers of the reactive cells can observe of a run, in
  order: the calls of \<^verbatim>\<open>Logger.debug\<close> and \<^verbatim>\<open>Logger.error\<close> with their arguments, the call
  of an injected implementation (by its name in \<^verbatim>\<open>factoryParams\<close>) with its argument
  object, and every assignment to a cell.
\<close>

datatype event =
    LogDebug string "jsval list"
  | LogError string jsval
  | Invoke string jsval
  | WUser jsval
  | WLoading bool
  | WErrorReset
  | WErrorSlot opname jsval

record hook_state =
  user :: jsval
  loading :: bool
  error :: errors
  trace :: "event list"

text \<open>
  The cells as \<^verbatim>\<open>sharedRef\<close> creates them the first time: \<^verbatim>\<open>sharedRef(null, 'useUser-user')\<close>,
  \<^verbatim>\<open>sharedRef(false, 'useUser-loading')\<close>, \<^verbatim>\<open>sharedRef(errorsFactory(), 'useUser-error')\<close>.
\<close>

definition init_state :: hook_state where
  "init_state = \<lparr> user = JNull, loading = False, error = errorsFactory, trace = [] \<rparr>"

subsection \<open>Statements\<close>

text \<open>
  A statement completes normally, throws, or is suspended at an \<^verbatim>\<open>await\<close> whose promise
  has not settled.
\<close>

datatype completion = Normal | Throw jsval | Suspended

type_synonym stmt = "hook_state \<Rightarrow> completion \<times> hook_state"

text \<open>
  A block runs its statements in order and stops at the first that throws or is suspended.
\<close>

fun block :: "stmt list \<Rightarrow> stmt" where
  "block [] st = (Normal, st)"
| "block (c # cs) st =
     (case c st of
        (Normal, st') \<Rightarrow> block cs st'
      | (Throw e, st') \<Rightarrow> (Throw e, st')
      | (Suspended, st') \<Rightarrow> (Suspended, st'))"

text \<open>\<^verbatim>\<open>try { body } catch (err) { handler }\<close>\<close>

definition try_catch :: "stmt \<Rightarrow> (jsval \<Rightarrow> stmt) \<Rightarrow> stmt" where
  "try_catch body handler st =
     (case body st of
        (Normal, st') \<Rightarrow> (Normal, st')
      | (Throw e, st') \<Rightarrow> handler e st'
      | (Suspended, st') \<Rightarrow> (Suspended, st'))"

text \<open>
  \<^verbatim>\<open>try { body } finally { fin }\<close>: \<^verbatim>\<open>fin\<close> runs when \<^verbatim>\<open>body\<close> completes, normally or
  by a throw; the completion is that of \<^verbatim>\<open>body\<close>, unless \<^verbatim>\<open>fin\<close> does not complete
  normally itself. While \<^verbatim>\<open>body\<close> is suspended, \<^verbatim>\<open>fin\<close> has not run.
\<close>

definition try_finally :: "stmt \<Rightarrow> stmt \<Rightarrow> stmt" where
  "try_finally body fin st =
     (case body st of
        (Suspended, st') \<Rightarrow> (Suspended, st')
      | (c, st') \<Rightarrow>
          (case fin st' of
             (Normal, st'') \<Rightarrow> (c, st'')
           | (c', st'') \<Rightarrow> (c', st'')))"

definition try_catch_finally :: "stmt \<Rightarrow> (jsval \<Rightarrow> stmt) \<Rightarrow> stmt \<Rightarrow> stmt" where
  "try_catch_finally body handler fin = try_finally (try_catch body handler) fin"

text \<open>The assignments to the cells. None of them throws.\<close>

definition assign_user :: "jsval \<Rightarrow> stmt" where
  "assign_user v st = (Normal, st\<lparr> user := v, trace := trace st @ [WUser v] \<rparr>)"

definition assign_loading :: "bool \<Rightarrow> stmt" where
  "assign_loading b st = (Normal, st\<lparr> loading := b, trace := trace st @ [WLoading b] \<rparr>)"

fun set_slot :: "opname \<Rightarrow> jsval \<Rightarrow> errors \<Rightarrow> errors" where
  "set_slot UpdateUser v e = e\<lparr> err_updateUser := v \<rparr>"
| "set_slot Register v e = e\<lparr> err_register := v \<rparr>"
| "set_slot Login v e = e\<lparr> err_login := v \<rparr>"
| "set_slot Logout v e = e\<lparr> err_logout := v \<rparr>"
| "set_slot ChangePassword v e = e\<lparr> err_changePassword := v \<rparr>"
| "set_slot Load v e = e\<lparr> err_load := v \<rparr>"
| "set_slot UpdateEmail v e = e\<lparr> err_updateEmail := v \<rparr>"

fun get_slot :: "opname \<Rightarrow> errors \<Rightarrow> jsval" where
  "get_slot UpdateUser e = err_updateUser e"
| "get_slot Register e = err_register e"
| "get_slot Login e = err_login e"
| "get_slot Logout e = err_logout e"
| "get_slot ChangePassword e = err_changePassword e"
| "get_slot Load e = err_load e"
| "get_slot UpdateEmail e = err_updateEmail e"

text \<open>\<^verbatim>\<open>error.value.<op> = v\<close>\<close>

definition assign_error :: "opname \<Rightarrow> jsval \<Rightarrow> stmt" where
  "assign_error op v st =
     (Normal, st\<lparr> error := set_slot op v (error st), trace := trace st @ [WErrorSlot op v] \<rparr>)"

text \<open>
  The logger is a collaborator outside the repository; it is taken not to throw, and a
  call of it is recorded in the trace.
\<close>

definition Logger_debug :: "string \<Rightarrow> jsval list \<Rightarrow> stmt" where
  "Logger_debug tag args st = (Normal, st\<lparr> trace := trace st @ [LogDebug tag args] \<rparr>)"

definition Logger_error :: "string \<Rightarrow> jsval \<Rightarrow> stmt" where
  "Logger_error tag err st = (Normal, st\<lparr> trace := trace st @ [LogError tag err] \<rparr>)"

subsection \<open>The injected implementations\<close>

text \<open>
  The promise of an implementation, and of a wrapped operation: fulfilled with a value,
  rejected with a value, or not settled.
\<close>

datatype promise = Fulfilled jsval | Rejected jsval | Pending

text \<open>
  \<^verbatim>\<open>_factoryParams = configureFactoryParams(factoryParams)\<close>: the implementations of
  \<^verbatim>\<open>UseUserFactoryParams\<close> with the context already bound, each a function of its one
  argument object. The fields are named as in the interface, with the prefix \<open>fp_\<close>.
\<close>

record factoryParams =
  fp_load :: "jsval \<Rightarrow> promise"
  fp_logOut :: "jsval \<Rightarrow> promise"
  fp_updateUser :: "jsval \<Rightarrow> promise"
  fp_register :: "jsval \<Rightarrow> promise"
  fp_logIn :: "jsval \<Rightarrow> promise"
  fp_changePassword :: "jsval \<Rightarrow> promise"
  fp_updateEmail :: "jsval \<Rightarrow> promise"

text \<open>
  \<^verbatim>\<open>await impl(args)\<close> followed by the rest of the statement, \<^verbatim>\<open>k\<close>, which receives the value
  the promise is fulfilled with. The argument object is built from the state at the call.
  A rejection is thrown at the \<^verbatim>\<open>await\<close>; on a pending promise the statement is
  suspended there.
\<close>

definition await_call :: "string \<Rightarrow> (jsval \<Rightarrow> promise) \<Rightarrow> (hook_state \<Rightarrow> jsval) \<Rightarrow> (jsval \<Rightarrow> stmt) \<Rightarrow> stmt" where
  "await_call name impl args k st =
     (let a = args st;
          st' = st\<lparr> trace := trace st @ [Invoke name a] \<rparr>
      in case impl a of
           Fulfilled v \<Rightarrow> k v st'
         | Rejected e \<Rightarrow> (Throw e, st')
         | Pending \<Rightarrow> (Suspended, st'))"

text \<open>
  An \<^verbatim>\<open>async\<close> function without a \<^verbatim>\<open>return\<close>: its promise is fulfilled with \<^verbatim>\<open>undefined\<close>
  when the body completes, rejected with the value the body throws, and pending while the
  body is suspended.
\<close>

definition async_fn :: "stmt \<Rightarrow> hook_state \<Rightarrow> promise \<times> hook_state" where
  "async_fn body st =
     (case body st of
        (Normal, st') \<Rightarrow> (Fulfilled JUndefined, st')
      | (Throw e, st') \<Rightarrow> (Rejected e, st')
      | (Suspended, st') \<Rightarrow> (Pending, st'))"

subsection \<open>Parameters of the operations\<close>

text \<open>
  \<^verbatim>\<open>updateUser\<close> and \<^verbatim>\<open>updateEmail\<close> destructure \<^verbatim>\<open>{ user: providedUser, customQuery }\<close>.
\<close>

record user_params =
  p_user :: jsval
  p_customQuery :: jsval

text \<open>
  \<^verbatim>\<open>register\<close> and \<^verbatim>\<open>login\<close> destructure the same two properties and spread
  \<^verbatim>\<open>providedUser\<close>, an object by its type (\<^verbatim>\<open>REGISTER_USER_PARAMS extends { email; password }\<close>,
  \<^verbatim>\<open>{ username; password }\<close>).
\<close>

record credentials_params =
  c_user :: jsobj
  c_customQuery :: jsval

text \<open>
  \<^verbatim>\<open>changePassword (params)\<close> reads five properties of its parameter; one that is absent
  reads as \<^verbatim>\<open>undefined\<close>.
\<close>

record password_params =
  pw_current :: jsval
  pw_new :: jsval
  pw_currentPassword :: jsval
  pw_newPassword :: jsval
  pw_customQuery :: jsval

text \<open>\<^verbatim>\<open>load ({customQuery} = {customQuery: undefined})\<close>: the argument may be left out.\<close>

record load_params =
  l_customQuery :: jsval

subsection \<open>The hook\<close>


definition resetErrorValue :: stmt where
  "resetErrorValue st = (Normal, st\<lparr> error := errorsFactory, trace := trace st @ [WErrorReset] \<rparr>)"

definition updateUser :: "factoryParams \<Rightarrow> user_params \<Rightarrow> hook_state \<Rightarrow> promise \<times> hook_state" where
  "updateUser fp params =
     async_fn (block [
       Logger_debug ''useUserFactory.updateUser'' [p_user params],
       resetErrorValue,
       try_catch_finally
         (block [
            assign_loading True,
            await_call ''updateUser'' (fp_updateUser fp)
              (\<lambda>st. JObj [(''currentUser'', user st),
                           (''updatedUserData'', p_user params),
                           (''customQuery'', p_customQuery params)])
              assign_user,
            assign_error UpdateUser JNull ])
         (\<lambda>err. block [
            assign_error UpdateUser err,
            Logger_error ''useUser/updateUser'' err ])
         (assign_loading False) ])"

definition register :: "factoryParams \<Rightarrow> credentials_params \<Rightarrow> hook_state \<Rightarrow> promise \<times> hook_state" where
  "register fp params =
     async_fn (block [
       Logger_debug ''useUserFactory.register'' [JObj (c_user params)],
       resetErrorValue,
       try_catch_finally
         (block [
            assign_loading True,
            await_call ''register'' (fp_register fp)
              (\<lambda>st. JObj (AList.update ''customQuery'' (c_customQuery params) (c_user params)))
              (\<lambda>v. block []),
            assign_error Register JNull ])
         (\<lambda>err. block [
            assign_error Register err,
            Logger_error ''useUser/register'' err ])
         (assign_loading False) ])"

definition login :: "factoryParams \<Rightarrow> credentials_params \<Rightarrow> hook_state \<Rightarrow> promise \<times> hook_state" where
  "login fp params =
     async_fn (block [
       Logger_debug ''useUserFactory.login'' [JObj (c_user params)],
       resetErrorValue,
       try_catch_finally
         (block [
            assign_loading True,
            await_call ''logIn'' (fp_logIn fp)
              (\<lambda>st. JObj (AList.update ''customQuery'' (c_customQuery params) (c_user params)))
              assign_user,
            assign_error Login JNull ])
         (\<lambda>err. block [
            assign_error Login err,
            Logger_error ''useUser/login'' err ])
         (assign_loading False) ])"

definition logout :: "factoryParams \<Rightarrow> hook_state \<Rightarrow> promise \<times> hook_state" where
  "logout fp =
     async_fn (block [
       Logger_debug ''useUserFactory.logout'' [],
       resetErrorValue,
       try_catch
         (block [
            await_call ''logOut'' (fp_logOut fp)
              (\<lambda>st. JObj [(''currentUser'', user st)])
              (\<lambda>v. block []),
            assign_error Logout JNull,
            assign_user JNull ])
         (\<lambda>err. block [
            assign_error Logout err,
            Logger_error ''useUser/logout'' err ]) ])"

text \<open>
  \<^verbatim>\<open>mask\<close> is imported from \<^verbatim>\<open>@vue-storefront/core\<close>, outside the repository: it is the
  parameter \<open>mask_fn\<close> of \<^verbatim>\<open>changePassword\<close>.
\<close>

definition changePassword :: "(jsval \<Rightarrow> jsval) \<Rightarrow> factoryParams \<Rightarrow> password_params \<Rightarrow> hook_state \<Rightarrow> promise \<times> hook_state" where
  "changePassword mask_fn fp params =
     async_fn (block [
       Logger_debug ''useUserFactory.changePassword''
         [JObj [(''currentPassword'', mask_fn (pw_current params)),
                (''newPassword'', mask_fn (pw_new params))]],
       resetErrorValue,
       try_catch_finally
         (block [
            assign_loading True,
            await_call ''changePassword'' (fp_changePassword fp)
              (\<lambda>st. JObj [(''currentUser'', user st),
                           (''currentPassword'', pw_currentPassword params),
                           (''newPassword'', pw_newPassword params),
                           (''customQuery'', pw_customQuery params)])
              assign_user,
            assign_error ChangePassword JNull ])
         (\<lambda>err. block [
            assign_error ChangePassword err,
            Logger_error ''useUser/changePassword'' err ])
         (assign_loading False) ])"

definition load :: "factoryParams \<Rightarrow> load_params option \<Rightarrow> hook_state \<Rightarrow> promise \<times> hook_state" where
  "load fp arg =
     (let customQuery = (case arg of None \<Rightarrow> JUndefined | Some params \<Rightarrow> l_customQuery params)
      in async_fn (block [
           Logger_debug ''useUserFactory.load'' [],
           resetErrorValue,
           try_catch_finally
             (block [
                assign_loading True,
                await_call ''load'' (fp_load fp)
                  (\<lambda>st. JObj [(''customQuery'', customQuery)])
                  assign_user,
                assign_error Load JNull ])
             (\<lambda>err. block [
                assign_error Load err,
                Logger_error ''useUser/load'' err ])
             (assign_loading False) ]))"

definition updateEmail :: "factoryParams \<Rightarrow> user_params \<Rightarrow> hook_state \<Rightarrow> promise \<times> hook_state" where
  "updateEmail fp params =
     async_fn (block [
       Logger_debug ''useUserFactory.updateEmail'' [p_user params],
       resetErrorValue,
       try_catch_finally
         (block [
            assign_loading True,
            await_call ''updateEmail'' (fp_updateEmail fp)
              (\<lambda>st. JObj [(''currentUser'', user st),
                           (''updatedUserData'', p_user params),
                           (''customQuery'', p_customQuery params)])
              (\<lambda>v. block []),
            assign_error UpdateEmail JNull ])
         (\<lambda>err. block [
            assign_error UpdateEmail err,
            Logger_error ''useUser/updateEmail'' err ])
         (assign_loading False) ])"

subsection \<open>The hook object\<close>

text \<open>
  The object \<^verbatim>\<open>useUser\<close> returns (lines 172 to 185) has twelve members of three kinds:
  the four views \<^verbatim>\<open>user\<close>, \<^verbatim>\<open>loading\<close>, \<^verbatim>\<open>error\<close> and \<^verbatim>\<open>isAuthenticated\<close>, each a
  \<^verbatim>\<open>computed\<close> of a getter; the seven asynchronous operations; and \<^verbatim>\<open>setUser\<close>.
\<close>







text \<open>The seven asynchronous operations, with the parameter each is called with.\<close>

datatype call =
    CallUpdateUser user_params
  | CallRegister credentials_params
  | CallLogin credentials_params
  | CallLogout
  | CallChangePassword password_params
  | CallLoad "load_params option"
  | CallUpdateEmail user_params

fun op_of :: "call \<Rightarrow> opname" where
  "op_of (CallUpdateUser p) = UpdateUser"
| "op_of (CallRegister p) = Register"
| "op_of (CallLogin p) = Login"
| "op_of CallLogout = Logout"
| "op_of (CallChangePassword p) = ChangePassword"
| "op_of (CallLoad a) = Load"
| "op_of (CallUpdateEmail p) = UpdateEmail"

fun invoke :: "(jsval \<Rightarrow> jsval) \<Rightarrow> factoryParams \<Rightarrow> call \<Rightarrow> hook_state \<Rightarrow> promise \<times> hook_state" where
  "invoke mask_fn fp (CallUpdateUser p) = updateUser fp p"
| "invoke mask_fn fp (CallRegister p) = register fp p"
| "invoke mask_fn fp (CallLogin p) = login fp p"
| "invoke mask_fn fp CallLogout = logout fp"
| "invoke mask_fn fp (CallChangePassword p) = changePassword mask_fn fp p"
| "invoke mask_fn fp (CallLoad a) = load fp a"
| "invoke mask_fn fp (CallUpdateEmail p) = updateEmail fp p"





subsection \<open>Vocabulary of the properties\<close>

text \<open>The events a run from \<open>st\<close> to \<open>st'\<close> has added to the trace.\<close>

definition events_of :: "hook_state \<Rightarrow> hook_state \<Rightarrow> event list" where
  "events_of st st' = drop (length (trace st)) (trace st')"

fun is_invoke :: "event \<Rightarrow> bool" where
  "is_invoke (Invoke n a) = True"
| "is_invoke _ = False"

fun is_debug :: "event \<Rightarrow> bool" where
  "is_debug (LogDebug t a) = True"
| "is_debug _ = False"

fun is_loading_write :: "event \<Rightarrow> bool" where
  "is_loading_write (WLoading b) = True"
| "is_loading_write _ = False"

text \<open>
  The implementation an operation calls, under its name in \<^verbatim>\<open>factoryParams\<close>, and the
  argument object the operation builds for it in state \<open>st\<close>. That a run calls exactly
  this implementation with exactly this object, once, is lemma \<open>invoke_calls\<close> below.
\<close>

fun impl_name :: "call \<Rightarrow> string" where
  "impl_name (CallUpdateUser p) = ''updateUser''"
| "impl_name (CallRegister p) = ''register''"
| "impl_name (CallLogin p) = ''logIn''"
| "impl_name CallLogout = ''logOut''"
| "impl_name (CallChangePassword p) = ''changePassword''"
| "impl_name (CallLoad a) = ''load''"
| "impl_name (CallUpdateEmail p) = ''updateEmail''"

fun impl_of :: "factoryParams \<Rightarrow> call \<Rightarrow> jsval \<Rightarrow> promise" where
  "impl_of fp (CallUpdateUser p) = fp_updateUser fp"
| "impl_of fp (CallRegister p) = fp_register fp"
| "impl_of fp (CallLogin p) = fp_logIn fp"
| "impl_of fp CallLogout = fp_logOut fp"
| "impl_of fp (CallChangePassword p) = fp_changePassword fp"
| "impl_of fp (CallLoad a) = fp_load fp"
| "impl_of fp (CallUpdateEmail p) = fp_updateEmail fp"

fun call_args :: "call \<Rightarrow> hook_state \<Rightarrow> jsval" where
  "call_args (CallUpdateUser p) st =
     JObj [(''currentUser'', user st), (''updatedUserData'', p_user p), (''customQuery'', p_customQuery p)]"
| "call_args (CallRegister p) st =
     JObj (AList.update ''customQuery'' (c_customQuery p) (c_user p))"
| "call_args (CallLogin p) st =
     JObj (AList.update ''customQuery'' (c_customQuery p) (c_user p))"
| "call_args CallLogout st =
     JObj [(''currentUser'', user st)]"
| "call_args (CallChangePassword p) st =
     JObj [(''currentUser'', user st), (''currentPassword'', pw_currentPassword p),
           (''newPassword'', pw_newPassword p), (''customQuery'', pw_customQuery p)]"
| "call_args (CallLoad None) st =
     JObj [(''customQuery'', JUndefined)]"
| "call_args (CallLoad (Some p)) st =
     JObj [(''customQuery'', l_customQuery p)]"
| "call_args (CallUpdateEmail p) st =
     JObj [(''currentUser'', user st), (''updatedUserData'', p_user p), (''customQuery'', p_customQuery p)]"

text \<open>The promise of the injected implementation when the operation \<open>c\<close> is invoked in \<open>st\<close>.\<close>

definition injected :: "factoryParams \<Rightarrow> call \<Rightarrow> hook_state \<Rightarrow> promise" where
  "injected fp c st = impl_of fp c (call_args c st)"

subsection \<open>Concrete runs\<close>

text \<open>
  Implementations for the concrete runs below: one whose every operation is fulfilled
  with \<open>v\<close>, one whose every operation is rejected with \<open>e\<close>, and one whose promises
  have not settled.
\<close>

definition fulfilling :: "jsval \<Rightarrow> factoryParams" where
  "fulfilling v = \<lparr>
     fp_load = (\<lambda>a. Fulfilled v),
     fp_logOut = (\<lambda>a. Fulfilled v),
     fp_updateUser = (\<lambda>a. Fulfilled v),
     fp_register = (\<lambda>a. Fulfilled v),
     fp_logIn = (\<lambda>a. Fulfilled v),
     fp_changePassword = (\<lambda>a. Fulfilled v),
     fp_updateEmail = (\<lambda>a. Fulfilled v) \<rparr>"

definition rejecting :: "jsval \<Rightarrow> factoryParams" where
  "rejecting e = \<lparr>
     fp_load = (\<lambda>a. Rejected e),
     fp_logOut = (\<lambda>a. Rejected e),
     fp_updateUser = (\<lambda>a. Rejected e),
     fp_register = (\<lambda>a. Rejected e),
     fp_logIn = (\<lambda>a. Rejected e),
     fp_changePassword = (\<lambda>a. Rejected e),
     fp_updateEmail = (\<lambda>a. Rejected e) \<rparr>"

definition unsettled :: factoryParams where
  "unsettled = \<lparr>
     fp_load = (\<lambda>a. Pending),
     fp_logOut = (\<lambda>a. Pending),
     fp_updateUser = (\<lambda>a. Pending),
     fp_register = (\<lambda>a. Pending),
     fp_logIn = (\<lambda>a. Pending),
     fp_changePassword = (\<lambda>a. Pending),
     fp_updateEmail = (\<lambda>a. Pending) \<rparr>"

text \<open>The parameters and values of the scenarios of the specification.\<close>

definition alice :: credentials_params where
  "alice = \<lparr> c_user = [(''username'', JStr ''a@b.com''), (''password'', JStr ''x'')],
             c_customQuery = JUndefined \<rparr>"

definition newcomer :: credentials_params where
  "newcomer = \<lparr> c_user = [(''email'', JStr ''a@b.com''), (''password'', JStr ''x'')],
                c_customQuery = JUndefined \<rparr>"

definition customer :: jsval where
  "customer = JObj [(''id'', JStr ''1''), (''emailAddress'', JStr ''a@b.com'')]"

definition invalid_credentials :: jsval where
  "invalid_credentials = JObj [(''message'', JStr ''Invalid credentials'')]"

definition network_error :: jsval where
  "network_error = JObj [(''message'', JStr ''Network error'')]"

definition new_email :: user_params where
  "new_email = \<lparr> p_user = JObj [(''emailAddress'', JStr ''c@d.com'')], p_customQuery = JUndefined \<rparr>"

definition new_password :: password_params where
  "new_password = \<lparr> pw_current = JUndefined, pw_new = JUndefined,
                    pw_currentPassword = JStr ''hunter2'', pw_newPassword = JStr ''correct horse'',
                    pw_customQuery = JUndefined \<rparr>"

text \<open>The hook after a login that failed, and after one that succeeded.\<close>

definition failed_login :: hook_state where
  "failed_login = snd (login (rejecting invalid_credentials) alice init_state)"

definition logged_in :: hook_state where
  "logged_in = snd (login (fulfilling customer) alice init_state)"

text \<open>
  The hook while a \<^verbatim>\<open>load\<close> waits for its implementation: on the fresh hook, with a
  customer logged in, and after a failed login. Another operation invoked now starts
  from this state.
\<close>

definition loading_fresh :: hook_state where
  "loading_fresh = snd (load unsettled None init_state)"

definition loading_logged_in :: hook_state where
  "loading_logged_in = snd (load unsettled None logged_in)"

definition loading_failed_login :: hook_state where
  "loading_failed_login = snd (load unsettled None failed_login)"

section \<open>Runs of the operations\<close>

text \<open>
  Each operation has three runs, by the promise of its implementation: fulfilled,
  rejected, pending. The lemmas give the promise and the state at the end of each, with
  the events in order.
\<close>

lemmas stmt_defs =
  async_fn_def try_catch_finally_def try_finally_def try_catch_def await_call_def
  assign_user_def assign_loading_def assign_error_def Logger_debug_def Logger_error_def
  resetErrorValue_def errorsFactory_def

lemma updateUser_fulfilled:
  assumes "fp_updateUser fp (JObj [(''currentUser'', user st), (''updatedUserData'', p_user p),
             (''customQuery'', p_customQuery p)]) = Fulfilled v"
  shows "updateUser fp p st = (Fulfilled JUndefined,
     st\<lparr> user := v, loading := False, error := errorsFactory,
         trace := trace st @
           [LogDebug ''useUserFactory.updateUser'' [p_user p], WErrorReset, WLoading True,
            Invoke ''updateUser'' (JObj [(''currentUser'', user st), (''updatedUserData'', p_user p),
              (''customQuery'', p_customQuery p)]),
            WUser v, WErrorSlot UpdateUser JNull, WLoading False] \<rparr>)"
  using assms by (simp add: updateUser_def stmt_defs)

lemma updateUser_rejected:
  assumes "fp_updateUser fp (JObj [(''currentUser'', user st), (''updatedUserData'', p_user p),
             (''customQuery'', p_customQuery p)]) = Rejected e"
  shows "updateUser fp p st = (Fulfilled JUndefined,
     st\<lparr> loading := False, error := errorsFactory\<lparr> err_updateUser := e \<rparr>,
         trace := trace st @
           [LogDebug ''useUserFactory.updateUser'' [p_user p], WErrorReset, WLoading True,
            Invoke ''updateUser'' (JObj [(''currentUser'', user st), (''updatedUserData'', p_user p),
              (''customQuery'', p_customQuery p)]),
            WErrorSlot UpdateUser e, LogError ''useUser/updateUser'' e, WLoading False] \<rparr>)"
  using assms by (simp add: updateUser_def stmt_defs)

lemma register_fulfilled:
  assumes "fp_register fp (JObj (AList.update ''customQuery'' (c_customQuery p) (c_user p))) = Fulfilled v"
  shows "register fp p st = (Fulfilled JUndefined,
     st\<lparr> loading := False, error := errorsFactory,
         trace := trace st @
           [LogDebug ''useUserFactory.register'' [JObj (c_user p)], WErrorReset, WLoading True,
            Invoke ''register'' (JObj (AList.update ''customQuery'' (c_customQuery p) (c_user p))),
            WErrorSlot Register JNull, WLoading False] \<rparr>)"
  using assms by (simp add: register_def stmt_defs)

lemma register_rejected:
  assumes "fp_register fp (JObj (AList.update ''customQuery'' (c_customQuery p) (c_user p))) = Rejected e"
  shows "register fp p st = (Fulfilled JUndefined,
     st\<lparr> loading := False, error := errorsFactory\<lparr> err_register := e \<rparr>,
         trace := trace st @
           [LogDebug ''useUserFactory.register'' [JObj (c_user p)], WErrorReset, WLoading True,
            Invoke ''register'' (JObj (AList.update ''customQuery'' (c_customQuery p) (c_user p))),
            WErrorSlot Register e, LogError ''useUser/register'' e, WLoading False] \<rparr>)"
  using assms by (simp add: register_def stmt_defs)

lemma login_fulfilled:
  assumes "fp_logIn fp (JObj (AList.update ''customQuery'' (c_customQuery p) (c_user p))) = Fulfilled v"
  shows "login fp p st = (Fulfilled JUndefined,
     st\<lparr> user := v, loading := False, error := errorsFactory,
         trace := trace st @
           [LogDebug ''useUserFactory.login'' [JObj (c_user p)], WErrorReset, WLoading True,
            Invoke ''logIn'' (JObj (AList.update ''customQuery'' (c_customQuery p) (c_user p))),
            WUser v, WErrorSlot Login JNull, WLoading False] \<rparr>)"
  using assms by (simp add: login_def stmt_defs)

lemma login_rejected:
  assumes "fp_logIn fp (JObj (AList.update ''customQuery'' (c_customQuery p) (c_user p))) = Rejected e"
  shows "login fp p st = (Fulfilled JUndefined,
     st\<lparr> loading := False, error := errorsFactory\<lparr> err_login := e \<rparr>,
         trace := trace st @
           [LogDebug ''useUserFactory.login'' [JObj (c_user p)], WErrorReset, WLoading True,
            Invoke ''logIn'' (JObj (AList.update ''customQuery'' (c_customQuery p) (c_user p))),
            WErrorSlot Login e, LogError ''useUser/login'' e, WLoading False] \<rparr>)"
  using assms by (simp add: login_def stmt_defs)

lemma logout_fulfilled:
  assumes "fp_logOut fp (JObj [(''currentUser'', user st)]) = Fulfilled v"
  shows "logout fp st = (Fulfilled JUndefined,
     st\<lparr> user := JNull, error := errorsFactory,
         trace := trace st @
           [LogDebug ''useUserFactory.logout'' [], WErrorReset,
            Invoke ''logOut'' (JObj [(''currentUser'', user st)]),
            WErrorSlot Logout JNull, WUser JNull] \<rparr>)"
  using assms by (simp add: logout_def stmt_defs)

lemma logout_rejected:
  assumes "fp_logOut fp (JObj [(''currentUser'', user st)]) = Rejected e"
  shows "logout fp st = (Fulfilled JUndefined,
     st\<lparr> error := errorsFactory\<lparr> err_logout := e \<rparr>,
         trace := trace st @
           [LogDebug ''useUserFactory.logout'' [], WErrorReset,
            Invoke ''logOut'' (JObj [(''currentUser'', user st)]),
            WErrorSlot Logout e, LogError ''useUser/logout'' e] \<rparr>)"
  using assms by (simp add: logout_def stmt_defs)

lemma changePassword_fulfilled:
  assumes "fp_changePassword fp (JObj [(''currentUser'', user st),
             (''currentPassword'', pw_currentPassword p), (''newPassword'', pw_newPassword p),
             (''customQuery'', pw_customQuery p)]) = Fulfilled v"
  shows "changePassword mask_fn fp p st = (Fulfilled JUndefined,
     st\<lparr> user := v, loading := False, error := errorsFactory,
         trace := trace st @
           [LogDebug ''useUserFactory.changePassword''
              [JObj [(''currentPassword'', mask_fn (pw_current p)), (''newPassword'', mask_fn (pw_new p))]],
            WErrorReset, WLoading True,
            Invoke ''changePassword'' (JObj [(''currentUser'', user st),
              (''currentPassword'', pw_currentPassword p), (''newPassword'', pw_newPassword p),
              (''customQuery'', pw_customQuery p)]),
            WUser v, WErrorSlot ChangePassword JNull, WLoading False] \<rparr>)"
  using assms by (simp add: changePassword_def stmt_defs)

lemma changePassword_rejected:
  assumes "fp_changePassword fp (JObj [(''currentUser'', user st),
             (''currentPassword'', pw_currentPassword p), (''newPassword'', pw_newPassword p),
             (''customQuery'', pw_customQuery p)]) = Rejected e"
  shows "changePassword mask_fn fp p st = (Fulfilled JUndefined,
     st\<lparr> loading := False, error := errorsFactory\<lparr> err_changePassword := e \<rparr>,
         trace := trace st @
           [LogDebug ''useUserFactory.changePassword''
              [JObj [(''currentPassword'', mask_fn (pw_current p)), (''newPassword'', mask_fn (pw_new p))]],
            WErrorReset, WLoading True,
            Invoke ''changePassword'' (JObj [(''currentUser'', user st),
              (''currentPassword'', pw_currentPassword p), (''newPassword'', pw_newPassword p),
              (''customQuery'', pw_customQuery p)]),
            WErrorSlot ChangePassword e, LogError ''useUser/changePassword'' e, WLoading False] \<rparr>)"
  using assms by (simp add: changePassword_def stmt_defs)

lemma load_fulfilled:
  assumes "fp_load fp (call_args (CallLoad a) st) = Fulfilled v"
  shows "load fp a st = (Fulfilled JUndefined,
     st\<lparr> user := v, loading := False, error := errorsFactory,
         trace := trace st @
           [LogDebug ''useUserFactory.load'' [], WErrorReset, WLoading True,
            Invoke ''load'' (call_args (CallLoad a) st),
            WUser v, WErrorSlot Load JNull, WLoading False] \<rparr>)"
  using assms by (cases a) (simp_all add: load_def stmt_defs)

lemma load_rejected:
  assumes "fp_load fp (call_args (CallLoad a) st) = Rejected e"
  shows "load fp a st = (Fulfilled JUndefined,
     st\<lparr> loading := False, error := errorsFactory\<lparr> err_load := e \<rparr>,
         trace := trace st @
           [LogDebug ''useUserFactory.load'' [], WErrorReset, WLoading True,
            Invoke ''load'' (call_args (CallLoad a) st),
            WErrorSlot Load e, LogError ''useUser/load'' e, WLoading False] \<rparr>)"
  using assms by (cases a) (simp_all add: load_def stmt_defs)

lemma updateEmail_fulfilled:
  assumes "fp_updateEmail fp (JObj [(''currentUser'', user st), (''updatedUserData'', p_user p),
             (''customQuery'', p_customQuery p)]) = Fulfilled v"
  shows "updateEmail fp p st = (Fulfilled JUndefined,
     st\<lparr> loading := False, error := errorsFactory,
         trace := trace st @
           [LogDebug ''useUserFactory.updateEmail'' [p_user p], WErrorReset, WLoading True,
            Invoke ''updateEmail'' (JObj [(''currentUser'', user st), (''updatedUserData'', p_user p),
              (''customQuery'', p_customQuery p)]),
            WErrorSlot UpdateEmail JNull, WLoading False] \<rparr>)"
  using assms by (simp add: updateEmail_def stmt_defs)

lemma updateEmail_rejected:
  assumes "fp_updateEmail fp (JObj [(''currentUser'', user st), (''updatedUserData'', p_user p),
             (''customQuery'', p_customQuery p)]) = Rejected e"
  shows "updateEmail fp p st = (Fulfilled JUndefined,
     st\<lparr> loading := False, error := errorsFactory\<lparr> err_updateEmail := e \<rparr>,
         trace := trace st @
           [LogDebug ''useUserFactory.updateEmail'' [p_user p], WErrorReset, WLoading True,
            Invoke ''updateEmail'' (JObj [(''currentUser'', user st), (''updatedUserData'', p_user p),
              (''customQuery'', p_customQuery p)]),
            WErrorSlot UpdateEmail e, LogError ''useUser/updateEmail'' e, WLoading False] \<rparr>)"
  using assms by (simp add: updateEmail_def stmt_defs)

lemma updateUser_pending:
  assumes "fp_updateUser fp (JObj [(''currentUser'', user st), (''updatedUserData'', p_user p),
             (''customQuery'', p_customQuery p)]) = Pending"
  shows "updateUser fp p st = (Pending,
     st\<lparr> loading := True, error := errorsFactory,
         trace := trace st @
           [LogDebug ''useUserFactory.updateUser'' [p_user p], WErrorReset, WLoading True,
            Invoke ''updateUser'' (JObj [(''currentUser'', user st), (''updatedUserData'', p_user p),
              (''customQuery'', p_customQuery p)])] \<rparr>)"
  using assms by (simp add: updateUser_def stmt_defs)

lemma register_pending:
  assumes "fp_register fp (JObj (AList.update ''customQuery'' (c_customQuery p) (c_user p))) = Pending"
  shows "register fp p st = (Pending,
     st\<lparr> loading := True, error := errorsFactory,
         trace := trace st @
           [LogDebug ''useUserFactory.register'' [JObj (c_user p)], WErrorReset, WLoading True,
            Invoke ''register'' (JObj (AList.update ''customQuery'' (c_customQuery p) (c_user p)))] \<rparr>)"
  using assms by (simp add: register_def stmt_defs)

lemma login_pending:
  assumes "fp_logIn fp (JObj (AList.update ''customQuery'' (c_customQuery p) (c_user p))) = Pending"
  shows "login fp p st = (Pending,
     st\<lparr> loading := True, error := errorsFactory,
         trace := trace st @
           [LogDebug ''useUserFactory.login'' [JObj (c_user p)], WErrorReset, WLoading True,
            Invoke ''logIn'' (JObj (AList.update ''customQuery'' (c_customQuery p) (c_user p)))] \<rparr>)"
  using assms by (simp add: login_def stmt_defs)

lemma logout_pending:
  assumes "fp_logOut fp (JObj [(''currentUser'', user st)]) = Pending"
  shows "logout fp st = (Pending,
     st\<lparr> error := errorsFactory,
         trace := trace st @
           [LogDebug ''useUserFactory.logout'' [], WErrorReset,
            Invoke ''logOut'' (JObj [(''currentUser'', user st)])] \<rparr>)"
  using assms by (simp add: logout_def stmt_defs)

lemma changePassword_pending:
  assumes "fp_changePassword fp (JObj [(''currentUser'', user st),
             (''currentPassword'', pw_currentPassword p), (''newPassword'', pw_newPassword p),
             (''customQuery'', pw_customQuery p)]) = Pending"
  shows "changePassword mask_fn fp p st = (Pending,
     st\<lparr> loading := True, error := errorsFactory,
         trace := trace st @
           [LogDebug ''useUserFactory.changePassword''
              [JObj [(''currentPassword'', mask_fn (pw_current p)), (''newPassword'', mask_fn (pw_new p))]],
            WErrorReset, WLoading True,
            Invoke ''changePassword'' (JObj [(''currentUser'', user st),
              (''currentPassword'', pw_currentPassword p), (''newPassword'', pw_newPassword p),
              (''customQuery'', pw_customQuery p)])] \<rparr>)"
  using assms by (simp add: changePassword_def stmt_defs)

lemma load_pending:
  assumes "fp_load fp (call_args (CallLoad a) st) = Pending"
  shows "load fp a st = (Pending,
     st\<lparr> loading := True, error := errorsFactory,
         trace := trace st @
           [LogDebug ''useUserFactory.load'' [], WErrorReset, WLoading True,
            Invoke ''load'' (call_args (CallLoad a) st)] \<rparr>)"
  using assms by (cases a) (simp_all add: load_def stmt_defs)

lemma updateEmail_pending:
  assumes "fp_updateEmail fp (JObj [(''currentUser'', user st), (''updatedUserData'', p_user p),
             (''customQuery'', p_customQuery p)]) = Pending"
  shows "updateEmail fp p st = (Pending,
     st\<lparr> loading := True, error := errorsFactory,
         trace := trace st @
           [LogDebug ''useUserFactory.updateEmail'' [p_user p], WErrorReset, WLoading True,
            Invoke ''updateEmail'' (JObj [(''currentUser'', user st), (''updatedUserData'', p_user p),
              (''customQuery'', p_customQuery p)])] \<rparr>)"
  using assms by (simp add: updateEmail_def stmt_defs)


text \<open>The seven operations together, by the promise of the implementation of \<open>c\<close>.\<close>

lemmas fulfilled_runs =
  updateUser_fulfilled register_fulfilled login_fulfilled logout_fulfilled
  changePassword_fulfilled load_fulfilled updateEmail_fulfilled

lemmas rejected_runs =
  updateUser_rejected register_rejected login_rejected logout_rejected
  changePassword_rejected load_rejected updateEmail_rejected

lemmas pending_runs =
  updateUser_pending register_pending login_pending logout_pending
  changePassword_pending load_pending updateEmail_pending

lemma events_of_append [simp]:
  "events_of st (st\<lparr> trace := trace st @ evs \<rparr>) = evs"
  "events_of st (st\<lparr> user := u, trace := trace st @ evs \<rparr>) = evs"
  "events_of st (st\<lparr> error := er, trace := trace st @ evs \<rparr>) = evs"
  "events_of st (st\<lparr> user := u, error := er, trace := trace st @ evs \<rparr>) = evs"
  "events_of st (st\<lparr> loading := b, error := er, trace := trace st @ evs \<rparr>) = evs"
  "events_of st (st\<lparr> user := u, loading := b, error := er, trace := trace st @ evs \<rparr>) = evs"
  by (simp_all add: events_of_def)

lemma get_set_slot: "get_slot op (set_slot op v er) = v"
  by (cases op) simp_all

lemma get_slot_errorsFactory: "get_slot op errorsFactory = JNull"
  by (cases op) (simp_all add: errorsFactory_def)

lemma invoke_fulfilled_user:
  assumes "injected fp c st = Fulfilled v"
  shows "user (snd (invoke mask_fn fp c st)) =
     (if op_of c \<in> {Register, UpdateEmail} then user st
      else if op_of c = Logout then JNull else v)"
  using assms
  by (cases c) (simp_all add: injected_def fulfilled_runs del: call_args.simps(6,7))

lemma invoke_fulfilled_error:
  assumes "injected fp c st = Fulfilled v"
  shows "error (snd (invoke mask_fn fp c st)) = errorsFactory"
  using assms
  by (cases c) (simp_all add: injected_def fulfilled_runs del: call_args.simps(6,7))

lemma invoke_fulfilled_slot_write:
  assumes "injected fp c st = Fulfilled v"
  shows "WErrorSlot (op_of c) JNull \<in> set (events_of st (snd (invoke mask_fn fp c st)))"
  using assms
  by (cases c) (simp_all add: injected_def fulfilled_runs del: call_args.simps(6,7))

lemma invoke_rejected_user:
  assumes "injected fp c st = Rejected e"
  shows "user (snd (invoke mask_fn fp c st)) = user st"
  using assms
  by (cases c) (simp_all add: injected_def rejected_runs del: call_args.simps(6,7))

lemma invoke_rejected_error:
  assumes "injected fp c st = Rejected e"
  shows "error (snd (invoke mask_fn fp c st)) = set_slot (op_of c) e errorsFactory"
  using assms
  by (cases c) (simp_all add: injected_def rejected_runs del: call_args.simps(6,7))

text \<open>
  While the implementation is pending, so is the operation, and every operation but
  \<^verbatim>\<open>logout\<close> has the loading flag set.
\<close>

lemma invoke_pending:
  assumes "injected fp c st = Pending"
  shows "fst (invoke mask_fn fp c st) = Pending"
    and "loading (snd (invoke mask_fn fp c st)) = (if op_of c = Logout then loading st else True)"
    and "user (snd (invoke mask_fn fp c st)) = user st"
    and "error (snd (invoke mask_fn fp c st)) = errorsFactory"
  using assms
  by (cases c; simp add: injected_def pending_runs del: call_args.simps(6,7))+

text \<open>Once the implementation has settled, in either way:\<close>

lemma invoke_promise:
  assumes "injected fp c st \<noteq> Pending"
  shows "fst (invoke mask_fn fp c st) = Fulfilled JUndefined"
proof (cases "injected fp c st")
  case (Fulfilled v)
  with assms show ?thesis
    by (cases c) (simp_all add: injected_def fulfilled_runs del: call_args.simps(6,7))
next
  case (Rejected e)
  with assms show ?thesis
    by (cases c) (simp_all add: injected_def rejected_runs del: call_args.simps(6,7))
next
  case Pending
  with assms show ?thesis by simp
qed

lemma invoke_loading:
  assumes "injected fp c st \<noteq> Pending"
  shows "loading (snd (invoke mask_fn fp c st)) = (if op_of c = Logout then loading st else False)"
proof (cases "injected fp c st")
  case (Fulfilled v)
  with assms show ?thesis
    by (cases c) (simp_all add: injected_def fulfilled_runs del: call_args.simps(6,7))
next
  case (Rejected e)
  with assms show ?thesis
    by (cases c) (simp_all add: injected_def rejected_runs del: call_args.simps(6,7))
next
  case Pending
  with assms show ?thesis by simp
qed

lemma invoke_loading_writes:
  assumes "injected fp c st \<noteq> Pending"
  shows "filter is_loading_write (events_of st (snd (invoke mask_fn fp c st))) =
     (if op_of c = Logout then [] else [WLoading True, WLoading False])"
proof (cases "injected fp c st")
  case (Fulfilled v)
  with assms show ?thesis
    by (cases c) (simp_all add: injected_def fulfilled_runs del: call_args.simps(6,7))
next
  case (Rejected e)
  with assms show ?thesis
    by (cases c) (simp_all add: injected_def rejected_runs del: call_args.simps(6,7))
next
  case Pending
  with assms show ?thesis by simp
qed

lemma invoke_last_event:
  assumes "injected fp c st \<noteq> Pending" "op_of c \<noteq> Logout"
  shows "\<exists>evs. events_of st (snd (invoke mask_fn fp c st)) = evs @ [WLoading False]"
proof (cases "injected fp c st")
  case (Fulfilled v)
  with assms show ?thesis
    by (cases c) (simp_all add: injected_def fulfilled_runs del: call_args.simps(6,7))
next
  case (Rejected e)
  with assms show ?thesis
    by (cases c) (simp_all add: injected_def rejected_runs del: call_args.simps(6,7))
next
  case Pending
  with assms show ?thesis by simp
qed

text \<open>Whatever the promise of the implementation:\<close>

lemma invoke_starts_with_reset:
  "\<exists>tag args rest.
     events_of st (snd (invoke mask_fn fp c st)) = LogDebug tag args # WErrorReset # rest"
proof (cases "injected fp c st")
  case (Fulfilled v)
  then show ?thesis
    by (cases c) (simp_all add: injected_def fulfilled_runs del: call_args.simps(6,7))
next
  case (Rejected e)
  then show ?thesis
    by (cases c) (simp_all add: injected_def rejected_runs del: call_args.simps(6,7))
next
  case Pending
  then show ?thesis
    by (cases c) (simp_all add: injected_def pending_runs del: call_args.simps(6,7))
qed


text \<open>
  A run calls the implementation of its operation once, with the argument object
  \<open>call_args\<close> gives: \<open>injected\<close> is the promise of the call the code makes.
\<close>

lemma invoke_calls:
  "filter is_invoke (events_of st (snd (invoke mask_fn fp c st))) =
     [Invoke (impl_name c) (call_args c st)]"
proof (cases "injected fp c st")
  case (Fulfilled v)
  then show ?thesis
    by (cases c) (simp_all add: injected_def fulfilled_runs del: call_args.simps(6,7))
next
  case (Rejected e)
  then show ?thesis
    by (cases c) (simp_all add: injected_def rejected_runs del: call_args.simps(6,7))
next
  case Pending
  then show ?thesis
    by (cases c) (simp_all add: injected_def pending_runs del: call_args.simps(6,7))
qed

lemma logout_never_writes_loading:
  "filter is_loading_write (events_of st (snd (logout fp st))) = []"
proof (cases "fp_logOut fp (JObj [(''currentUser'', user st)])")
  case (Fulfilled v)
  then show ?thesis by (simp add: logout_fulfilled)
next
  case (Rejected e)
  then show ?thesis by (simp add: logout_rejected)
next
  case Pending
  then show ?thesis by (simp add: logout_pending)
qed

lemma logout_keeps_loading:
  "loading (snd (logout fp st)) = loading st"
proof (cases "fp_logOut fp (JObj [(''currentUser'', user st)])")
  case (Fulfilled v)
  then show ?thesis by (simp add: logout_fulfilled)
next
  case (Rejected e)
  then show ?thesis by (simp add: logout_rejected)
next
  case Pending
  then show ?thesis by (simp add: logout_pending)
qed

lemma changePassword_entry_log:
  "filter is_debug (events_of st (snd (changePassword mask_fn fp p st))) =
     [LogDebug ''useUserFactory.changePassword''
        [JObj [(''currentPassword'', mask_fn (pw_current p)), (''newPassword'', mask_fn (pw_new p))]]]"
proof (cases "injected fp (CallChangePassword p) st")
  case (Fulfilled v)
  then show ?thesis by (simp add: injected_def changePassword_fulfilled)
next
  case (Rejected e)
  then show ?thesis by (simp add: injected_def changePassword_rejected)
next
  case Pending
  then show ?thesis by (simp add: injected_def changePassword_pending)
qed



text \<open>The states of the concrete runs.\<close>

lemma failed_login_run:
  "failed_login = init_state\<lparr> loading := False, error := errorsFactory\<lparr> err_login := invalid_credentials \<rparr>,
     trace := [LogDebug ''useUserFactory.login'' [JObj (c_user alice)], WErrorReset, WLoading True,
       Invoke ''logIn'' (JObj (AList.update ''customQuery'' (c_customQuery alice) (c_user alice))),
       WErrorSlot Login invalid_credentials, LogError ''useUser/login'' invalid_credentials,
       WLoading False] \<rparr>"
  by (simp add: failed_login_def login_rejected rejecting_def init_state_def)

lemma logged_in_run:
  "logged_in = init_state\<lparr> user := customer, loading := False, error := errorsFactory,
     trace := [LogDebug ''useUserFactory.login'' [JObj (c_user alice)], WErrorReset, WLoading True,
       Invoke ''logIn'' (JObj (AList.update ''customQuery'' (c_customQuery alice) (c_user alice))),
       WUser customer, WErrorSlot Login JNull, WLoading False] \<rparr>"
  by (simp add: logged_in_def login_fulfilled fulfilling_def init_state_def)

lemma loading_states:
  "loading loading_fresh = True" "user loading_fresh = JNull"
  "loading loading_logged_in = True" "user loading_logged_in = customer"
  "loading loading_failed_login = True" "user loading_failed_login = JNull"
  by (simp_all add: loading_fresh_def loading_logged_in_def loading_failed_login_def
        load_pending unsettled_def logged_in_run failed_login_run init_state_def)

section \<open>The claims\<close>

subsection \<open>C1\<close>

text \<open>
  C1, as stated: each of \<^verbatim>\<open>login\<close>, \<^verbatim>\<open>register\<close>, \<^verbatim>\<open>load\<close>, \<^verbatim>\<open>updateUser\<close> and
  \<^verbatim>\<open>changePassword\<close> sets the shared user to the value its implementation returns.
  \<^verbatim>\<open>register\<close> does not: it awaits the implementation and drops the value (the comment
  there says Vendure's register returns a boolean, not a customer). On the fresh hook, a
  registration fulfilled with \<^verbatim>\<open>true\<close> leaves the user \<^verbatim>\<open>null\<close>.
\<close>

theorem C1_register_drops_result:
  "injected (fulfilling (JBool True)) (CallRegister newcomer) init_state = Fulfilled (JBool True)
   \<and> user (snd (invoke id (fulfilling (JBool True)) (CallRegister newcomer) init_state)) = JNull
   \<and> user (snd (invoke id (fulfilling (JBool True)) (CallRegister newcomer) init_state)) \<noteq> JBool True"
proof -
  have h: "injected (fulfilling (JBool True)) (CallRegister newcomer) init_state = Fulfilled (JBool True)"
    by (simp add: injected_def fulfilling_def)
  have "user (snd (invoke id (fulfilling (JBool True)) (CallRegister newcomer) init_state)) = JNull"
    using invoke_fulfilled_user [OF h, of id] by (simp add: init_state_def)
  with h show ?thesis by simp
qed

text \<open>
  C1, amended: when the implementation is fulfilled with \<open>v\<close>, each of \<^verbatim>\<open>login\<close>,
  \<^verbatim>\<open>load\<close>, \<^verbatim>\<open>updateUser\<close> and \<^verbatim>\<open>changePassword\<close> sets the shared user to \<open>v\<close>, and
  \<^verbatim>\<open>register\<close> leaves the shared user as it was.
\<close>

theorem C1_success_sets_user:
  assumes "injected fp c st = Fulfilled v"
  shows "(op_of c \<in> {Login, Load, UpdateUser, ChangePassword} \<longrightarrow>
            user (snd (invoke mask_fn fp c st)) = v)
       \<and> (op_of c = Register \<longrightarrow> user (snd (invoke mask_fn fp c st)) = user st)"
  using invoke_fulfilled_user [OF assms, of mask_fn] by auto

theorem C1_success_sets_user_witness:
  "injected (fulfilling customer) (CallLogin alice) init_state = Fulfilled customer
   \<and> op_of (CallLogin alice) \<in> {Login, Load, UpdateUser, ChangePassword}
   \<and> user (snd (invoke id (fulfilling customer) (CallLogin alice) init_state)) = customer
   \<and> injected (fulfilling (JBool True)) (CallRegister newcomer) logged_in = Fulfilled (JBool True)
   \<and> op_of (CallRegister newcomer) = Register
   \<and> user (snd (invoke id (fulfilling (JBool True)) (CallRegister newcomer) logged_in)) = customer"
proof -
  have h1: "injected (fulfilling customer) (CallLogin alice) init_state = Fulfilled customer"
    by (simp add: injected_def fulfilling_def)
  have h2: "injected (fulfilling (JBool True)) (CallRegister newcomer) logged_in = Fulfilled (JBool True)"
    by (simp add: injected_def fulfilling_def)
  have "user (snd (invoke id (fulfilling customer) (CallLogin alice) init_state)) = customer"
    using C1_success_sets_user [OF h1, of id] by simp
  moreover have "user (snd (invoke id (fulfilling (JBool True)) (CallRegister newcomer) logged_in)) = customer"
    using C1_success_sets_user [OF h2, of id] by (simp add: logged_in_run)
  ultimately show ?thesis using h1 h2 by simp
qed

subsection \<open>C2\<close>




subsection \<open>C3\<close>

text \<open>
  C3, as stated: for every operation, \<^verbatim>\<open>logout\<close> among them, and every starting value of
  the loading flag, the flag is false when the invocation completes, reset in a
  \<^verbatim>\<open>finally\<close> block. \<^verbatim>\<open>logout\<close> has a \<^verbatim>\<open>try / catch\<close> without \<^verbatim>\<open>finally\<close> and never
  writes the flag: invoked while a \<^verbatim>\<open>load\<close> waits for its implementation, it starts with
  the flag true and completes with the flag still true, whether \<^verbatim>\<open>logOut\<close> is fulfilled
  or rejected.
\<close>

theorem C3_logout_leaves_loading_set:
  "loading loading_fresh = True
   \<and> injected (fulfilling JUndefined) CallLogout loading_fresh = Fulfilled JUndefined
   \<and> loading (snd (invoke id (fulfilling JUndefined) CallLogout loading_fresh)) = True
   \<and> injected (rejecting network_error) CallLogout loading_fresh = Rejected network_error
   \<and> loading (snd (invoke id (rejecting network_error) CallLogout loading_fresh)) = True"
  by (simp add: logout_keeps_loading loading_states injected_def fulfilling_def rejecting_def)

text \<open>
  C3, amended: for each of \<^verbatim>\<open>load\<close>, \<^verbatim>\<open>register\<close>, \<^verbatim>\<open>login\<close>, \<^verbatim>\<open>changePassword\<close>,
  \<^verbatim>\<open>updateUser\<close> and \<^verbatim>\<open>updateEmail\<close>, for every starting value of the loading flag and
  whether the implementation succeeds or throws, the flag is false when the invocation completes,
  and the assignment of false (the \<^verbatim>\<open>finally\<close> block) is the last thing the invocation
  does. \<^verbatim>\<open>logout\<close> never writes the flag and leaves it at its starting value.
\<close>

theorem C3_loading_released:
  assumes "injected fp c st \<noteq> Pending"
  shows "(op_of c \<noteq> Logout \<longrightarrow>
      loading (snd (invoke mask_fn fp c st)) = False
      \<and> (\<exists>evs. events_of st (snd (invoke mask_fn fp c st)) = evs @ [WLoading False]))
   \<and> (op_of c = Logout \<longrightarrow>
      loading (snd (invoke mask_fn fp c st)) = loading st
      \<and> filter is_loading_write (events_of st (snd (invoke mask_fn fp c st))) = [])"
  using assms
  by (simp add: invoke_loading invoke_loading_writes invoke_last_event del: invoke.simps)

theorem C3_loading_released_witness:
  "injected (rejecting network_error) (CallUpdateEmail new_email) loading_fresh \<noteq> Pending
   \<and> op_of (CallUpdateEmail new_email) \<noteq> Logout
   \<and> loading loading_fresh = True
   \<and> loading (snd (invoke id (rejecting network_error) (CallUpdateEmail new_email) loading_fresh)) = False
   \<and> injected (rejecting network_error) CallLogout init_state \<noteq> Pending
   \<and> op_of CallLogout = Logout
   \<and> loading (snd (invoke id (rejecting network_error) CallLogout init_state)) = loading init_state"
proof -
  have h1: "injected (rejecting network_error) (CallUpdateEmail new_email) loading_fresh \<noteq> Pending"
    by (simp add: injected_def rejecting_def)
  have h2: "injected (rejecting network_error) CallLogout init_state \<noteq> Pending"
    by (simp add: injected_def rejecting_def)
  have n: "op_of (CallUpdateEmail new_email) \<noteq> Logout" by simp
  have l: "op_of CallLogout = Logout" by simp
  show ?thesis
    using h1 h2 n l loading_states(1)
      C3_loading_released [OF h1, of id]
      C3_loading_released [OF h2, of id]
    by simp
qed

subsection \<open>C4\<close>

text \<open>
  C4: for every operation and every value its implementation throws, the promise of the
  wrapped operation is fulfilled, not rejected, and the value is stored in the operation's
  slot of the error map.
\<close>

theorem C4_failure_absorbed:
  assumes "injected fp c st = Rejected e"
  shows "fst (invoke mask_fn fp c st) = Fulfilled JUndefined
       \<and> get_slot (op_of c) (error (snd (invoke mask_fn fp c st))) = e"
  using assms
  by (simp add: invoke_promise invoke_rejected_error [OF assms] get_set_slot del: invoke.simps)

theorem C4_failure_absorbed_witness:
  "injected (rejecting network_error) (CallChangePassword new_password) logged_in = Rejected network_error
   \<and> fst (invoke id (rejecting network_error) (CallChangePassword new_password) logged_in)
       = Fulfilled JUndefined
   \<and> err_changePassword
       (error (snd (invoke id (rejecting network_error) (CallChangePassword new_password) logged_in)))
       = network_error"
proof -
  have h: "injected (rejecting network_error) (CallChangePassword new_password) logged_in
      = Rejected network_error"
    by (simp add: injected_def rejecting_def)
  show ?thesis
    using h C4_failure_absorbed [OF h, of id] by simp
qed

subsection \<open>C5\<close>

text \<open>
  C5, as stated: for every operation and every starting state, when the implementation
  throws, loading is false afterwards, the error is in the operation's slot and the user
  is unchanged. The error and the user are as stated; the loading flag is not, for
  \<^verbatim>\<open>logout\<close>: with a customer logged in and a \<^verbatim>\<open>load\<close> waiting for its
  implementation, a \<^verbatim>\<open>logout\<close> whose implementation throws starts with the flag true
  and ends with the flag still true.
\<close>

theorem C5_failed_logout_leaves_loading_set:
  "injected (rejecting network_error) CallLogout loading_logged_in = Rejected network_error
   \<and> loading (snd (invoke id (rejecting network_error) CallLogout loading_logged_in)) \<noteq> False
   \<and> err_logout (error (snd (invoke id (rejecting network_error) CallLogout loading_logged_in)))
       = network_error
   \<and> user (snd (invoke id (rejecting network_error) CallLogout loading_logged_in)) = customer"
proof -
  have h: "injected (rejecting network_error) CallLogout loading_logged_in = Rejected network_error"
    by (simp add: injected_def rejecting_def)
  show ?thesis
    using h invoke_rejected_error [OF h, of id] invoke_rejected_user [OF h, of id]
    by (simp add: logout_keeps_loading loading_states errorsFactory_def)
qed

text \<open>
  C5, amended: for every operation and every starting state, if the implementation
  throws, then after the invocation the operation's slot of the error map holds the
  thrown error and the shared user is unchanged; the loading flag is false for every
  operation but \<^verbatim>\<open>logout\<close>, which leaves the flag at its starting value.
\<close>

theorem C5_failure_state:
  assumes "injected fp c st = Rejected e"
  shows "get_slot (op_of c) (error (snd (invoke mask_fn fp c st))) = e
       \<and> user (snd (invoke mask_fn fp c st)) = user st
       \<and> (op_of c \<noteq> Logout \<longrightarrow> loading (snd (invoke mask_fn fp c st)) = False)
       \<and> (op_of c = Logout \<longrightarrow> loading (snd (invoke mask_fn fp c st)) = loading st)"
  using assms
  by (simp add: invoke_rejected_error [OF assms] invoke_rejected_user [OF assms]
        invoke_loading get_set_slot del: invoke.simps)

theorem C5_failure_state_witness:
  "injected (rejecting invalid_credentials) (CallLogin alice) loading_fresh
       = Rejected invalid_credentials
   \<and> err_login (error (snd (invoke id (rejecting invalid_credentials) (CallLogin alice) loading_fresh)))
       = invalid_credentials
   \<and> user (snd (invoke id (rejecting invalid_credentials) (CallLogin alice) loading_fresh)) = JNull
   \<and> loading loading_fresh = True
   \<and> loading (snd (invoke id (rejecting invalid_credentials) (CallLogin alice) loading_fresh)) = False"
proof -
  have h: "injected (rejecting invalid_credentials) (CallLogin alice) loading_fresh
      = Rejected invalid_credentials"
    by (simp add: injected_def rejecting_def)
  show ?thesis
    using h C5_failure_state [OF h, of id] by (simp add: loading_states)
qed

subsection \<open>C6\<close>

text \<open>
  C6, as stated: every invocation begins by resetting the whole error map, and a
  successful one ends with loading false and every slot null. The error map is as
  stated; the loading flag is not, for \<^verbatim>\<open>logout\<close>: a successful \<^verbatim>\<open>logout\<close> invoked
  while a \<^verbatim>\<open>load\<close> waits for its implementation starts with the flag true and ends with
  every slot null and the flag still true.
\<close>

theorem C6_successful_logout_leaves_loading_set:
  "injected (fulfilling JUndefined) CallLogout loading_failed_login = Fulfilled JUndefined
   \<and> error (snd (invoke id (fulfilling JUndefined) CallLogout loading_failed_login)) = errorsFactory
   \<and> loading (snd (invoke id (fulfilling JUndefined) CallLogout loading_failed_login)) = True"
proof -
  have h: "injected (fulfilling JUndefined) CallLogout loading_failed_login = Fulfilled JUndefined"
    by (simp add: injected_def fulfilling_def)
  show ?thesis
    using h invoke_fulfilled_error [OF h, of id]
    by (simp add: logout_keeps_loading loading_states)
qed

text \<open>
  C6, amended: every invocation of any operation begins, after its entry log, by
  resetting the entire error map to all-null (every operation's slot), and a successful
  invocation of \<open>op\<close> also assigns null to its own slot and ends with every slot of the
  error map null; it ends with loading false for every operation but \<^verbatim>\<open>logout\<close>, which
  leaves the flag at its starting value.
\<close>

theorem C6_reset_and_success_state:
  "(\<exists>tag args rest.
      events_of st (snd (invoke mask_fn fp c st)) = LogDebug tag args # WErrorReset # rest)
   \<and> (\<forall>v. injected fp c st = Fulfilled v \<longrightarrow>
         WErrorSlot (op_of c) JNull \<in> set (events_of st (snd (invoke mask_fn fp c st)))
         \<and> error (snd (invoke mask_fn fp c st)) = errorsFactory
         \<and> (\<forall>x. get_slot x (error (snd (invoke mask_fn fp c st))) = JNull)
         \<and> (op_of c \<noteq> Logout \<longrightarrow> loading (snd (invoke mask_fn fp c st)) = False)
         \<and> (op_of c = Logout \<longrightarrow> loading (snd (invoke mask_fn fp c st)) = loading st))"
  using invoke_starts_with_reset [of st mask_fn fp c]
  by (simp add: invoke_fulfilled_slot_write invoke_fulfilled_error invoke_loading
        get_slot_errorsFactory del: invoke.simps)

theorem C6_reset_and_success_state_witness:
  "injected (fulfilling customer) (CallLoad None) failed_login = Fulfilled customer
   \<and> err_login (error failed_login) = invalid_credentials
   \<and> error (snd (invoke id (fulfilling customer) (CallLoad None) failed_login)) = errorsFactory
   \<and> get_slot Login (error (snd (invoke id (fulfilling customer) (CallLoad None) failed_login))) = JNull
   \<and> loading (snd (invoke id (fulfilling customer) (CallLoad None) failed_login)) = False"
proof -
  have h: "injected (fulfilling customer) (CallLoad None) failed_login = Fulfilled customer"
    by (simp add: injected_def fulfilling_def)
  have e: "err_login (error failed_login) = invalid_credentials"
    by (simp add: failed_login_run)
  show ?thesis
    using h e C6_reset_and_success_state [of failed_login id "fulfilling customer" "CallLoad None"]
    by (simp add: errorsFactory_def)
qed

subsection \<open>C7\<close>

text \<open>
  C7: whatever the shared user was, a \<^verbatim>\<open>logout\<close> whose \<^verbatim>\<open>logOut\<close> implementation
  succeeds sets the shared user to null and the \<^verbatim>\<open>logout\<close> slot of the error map to
  null; and \<^verbatim>\<open>logout\<close>, however its implementation settles, never assigns true to the
  loading flag (it never writes the flag at all).
\<close>

theorem C7_logout_clears_user:
  "(fp_logOut fp (JObj [(''currentUser'', user st)]) = Fulfilled v \<longrightarrow>
      user (snd (logout fp st)) = JNull
      \<and> err_logout (error (snd (logout fp st))) = JNull)
   \<and> WLoading True \<notin> set (events_of st (snd (logout fp st)))
   \<and> filter is_loading_write (events_of st (snd (logout fp st))) = []"
proof -
  have w: "filter is_loading_write (events_of st (snd (logout fp st))) = []"
    by (rule logout_never_writes_loading)
  have "WLoading True \<notin> set (filter is_loading_write (events_of st (snd (logout fp st))))"
    by (simp only: w) simp
  then have "WLoading True \<notin> set (events_of st (snd (logout fp st)))"
    by simp
  with w show ?thesis
    by (simp add: logout_fulfilled errorsFactory_def)
qed

theorem C7_logout_clears_user_witness:
  "fp_logOut (fulfilling JUndefined) (JObj [(''currentUser'', user logged_in)]) = Fulfilled JUndefined
   \<and> user logged_in = customer
   \<and> user (snd (logout (fulfilling JUndefined) logged_in)) = JNull
   \<and> err_logout (error (snd (logout (fulfilling JUndefined) logged_in))) = JNull
   \<and> WLoading True \<notin> set (events_of logged_in (snd (logout (fulfilling JUndefined) logged_in)))"
proof -
  have h: "fp_logOut (fulfilling JUndefined) (JObj [(''currentUser'', user logged_in)])
      = Fulfilled JUndefined"
    by (simp add: fulfilling_def)
  have u: "user logged_in = customer"
    by (simp add: logged_in_run)
  show ?thesis
    using h u C7_logout_clears_user [of "fulfilling JUndefined" logged_in JUndefined]
    by simp
qed

subsection \<open>C8\<close>

text \<open>
  C8: whatever the starting state, a \<^verbatim>\<open>register\<close> whose implementation succeeds leaves
  the shared user as it was before the call (the value returned is not assigned) and
  leaves the \<^verbatim>\<open>register\<close> slot of the error map null.
\<close>

theorem C8_register_keeps_user:
  assumes "fp_register fp (JObj (AList.update ''customQuery'' (c_customQuery p) (c_user p))) = Fulfilled v"
  shows "user (snd (register fp p st)) = user st
       \<and> err_register (error (snd (register fp p st))) = JNull"
  by (simp add: register_fulfilled [OF assms] errorsFactory_def)

theorem C8_register_keeps_user_witness:
  "fp_register (fulfilling (JBool True))
      (JObj (AList.update ''customQuery'' (c_customQuery newcomer) (c_user newcomer)))
     = Fulfilled (JBool True)
   \<and> user (snd (register (fulfilling (JBool True)) newcomer logged_in)) = customer
   \<and> err_register (error (snd (register (fulfilling (JBool True)) newcomer logged_in))) = JNull"
proof -
  have h: "fp_register (fulfilling (JBool True))
      (JObj (AList.update ''customQuery'' (c_customQuery newcomer) (c_user newcomer)))
     = Fulfilled (JBool True)"
    by (simp add: fulfilling_def)
  have u: "user logged_in = customer"
    by (simp add: logged_in_run)
  show ?thesis
    using h u C8_register_keeps_user [OF h, of logged_in] by simp
qed

subsection \<open>C9\<close>

text \<open>
  C9, as stated: a successful \<^verbatim>\<open>updateEmail\<close> leaves the shared user unchanged, and only
  the \<^verbatim>\<open>updateEmail\<close> slot of the error map and the loading flag change. The user is
  unchanged, but the reset at the start of the operation replaces the whole error map:
  after a failed login, a successful \<^verbatim>\<open>updateEmail\<close> changes the \<^verbatim>\<open>login\<close> slot from the
  login error to null.
\<close>

theorem C9_updateEmail_clears_other_slots:
  "fp_updateEmail (fulfilling JUndefined)
      (JObj [(''currentUser'', user failed_login), (''updatedUserData'', p_user new_email),
             (''customQuery'', p_customQuery new_email)]) = Fulfilled JUndefined
   \<and> err_login (error failed_login) = invalid_credentials
   \<and> err_login (error (snd (updateEmail (fulfilling JUndefined) new_email failed_login))) = JNull
   \<and> err_login (error (snd (updateEmail (fulfilling JUndefined) new_email failed_login)))
       \<noteq> err_login (error failed_login)"
proof -
  have h: "fp_updateEmail (fulfilling JUndefined)
      (JObj [(''currentUser'', user failed_login), (''updatedUserData'', p_user new_email),
             (''customQuery'', p_customQuery new_email)]) = Fulfilled JUndefined"
    by (simp add: fulfilling_def)
  have e: "err_login (error failed_login) = invalid_credentials"
    by (simp add: failed_login_run)
  have n: "invalid_credentials \<noteq> JNull"
    by (simp add: invalid_credentials_def)
  show ?thesis
    using h e n by (simp add: updateEmail_fulfilled [OF h] errorsFactory_def)
qed

text \<open>
  C9, amended: whatever the starting state, an \<^verbatim>\<open>updateEmail\<close> whose implementation
  succeeds leaves the shared user unchanged from its value before the call; afterwards
  the loading flag is false and every slot of the error map is null (the
  \<^verbatim>\<open>updateEmail\<close> slot assigned null on success, the others cleared by the reset at the
  start).
\<close>

theorem C9_updateEmail_keeps_user:
  assumes "fp_updateEmail fp (JObj [(''currentUser'', user st), (''updatedUserData'', p_user p),
             (''customQuery'', p_customQuery p)]) = Fulfilled v"
  shows "user (snd (updateEmail fp p st)) = user st
       \<and> loading (snd (updateEmail fp p st)) = False
       \<and> error (snd (updateEmail fp p st)) = errorsFactory
       \<and> WErrorSlot UpdateEmail JNull \<in> set (events_of st (snd (updateEmail fp p st)))"
  by (simp add: updateEmail_fulfilled [OF assms])

theorem C9_updateEmail_keeps_user_witness:
  "fp_updateEmail (fulfilling JUndefined)
      (JObj [(''currentUser'', user logged_in), (''updatedUserData'', p_user new_email),
             (''customQuery'', p_customQuery new_email)]) = Fulfilled JUndefined
   \<and> user (snd (updateEmail (fulfilling JUndefined) new_email logged_in)) = customer
   \<and> loading (snd (updateEmail (fulfilling JUndefined) new_email logged_in)) = False
   \<and> error (snd (updateEmail (fulfilling JUndefined) new_email logged_in)) = errorsFactory"
proof -
  have h: "fp_updateEmail (fulfilling JUndefined)
      (JObj [(''currentUser'', user logged_in), (''updatedUserData'', p_user new_email),
             (''customQuery'', p_customQuery new_email)]) = Fulfilled JUndefined"
    by (simp add: fulfilling_def)
  have u: "user logged_in = customer"
    by (simp add: logged_in_run)
  show ?thesis
    using h u C9_updateEmail_keeps_user [OF h] by simp
qed

subsection \<open>C10\<close>

text \<open>
  C10: the entry log of \<^verbatim>\<open>changePassword\<close> is
  \<^verbatim>\<open>{ currentPassword: mask(params.current), newPassword: mask(params.new) }\<close>, the only
  call of \<^verbatim>\<open>Logger.debug\<close> in a run. Two invocations whose parameters differ only in
  \<^verbatim>\<open>currentPassword\<close> and \<^verbatim>\<open>newPassword\<close> therefore log the same entry, for every
  \<^verbatim>\<open>mask\<close>, while the implementation is called with \<^verbatim>\<open>params.currentPassword\<close> and
  \<^verbatim>\<open>params.newPassword\<close>: the passwords do not reach the entry log.
\<close>

theorem C10_entry_log_ignores_passwords:
  "filter is_debug (events_of st
       (snd (changePassword mask_fn fp (p\<lparr> pw_currentPassword := a, pw_newPassword := b \<rparr>) st)))
     = filter is_debug (events_of stB (snd (changePassword mask_fn fpB p stB)))
   \<and> filter is_debug (events_of st (snd (changePassword mask_fn fp p st)))
     = [LogDebug ''useUserFactory.changePassword''
          [JObj [(''currentPassword'', mask_fn (pw_current p)), (''newPassword'', mask_fn (pw_new p))]]]
   \<and> filter is_invoke (events_of st (snd (changePassword mask_fn fp p st)))
     = [Invoke ''changePassword''
          (JObj [(''currentUser'', user st), (''currentPassword'', pw_currentPassword p),
                 (''newPassword'', pw_newPassword p), (''customQuery'', pw_customQuery p)])]"
  using invoke_calls [of st mask_fn fp "CallChangePassword p"]
  by (simp add: changePassword_entry_log)

theorem C10_entry_log_ignores_passwords_witness:
  "filter is_debug (events_of logged_in
       (snd (changePassword id (fulfilling customer)
          (new_password\<lparr> pw_currentPassword := JStr ''12345'', pw_newPassword := JStr ''67890'' \<rparr>)
          logged_in)))
     = filter is_debug (events_of logged_in
       (snd (changePassword id (fulfilling customer) new_password logged_in)))
   \<and> filter is_invoke (events_of logged_in
       (snd (changePassword id (fulfilling customer) new_password logged_in)))
     = [Invoke ''changePassword''
          (JObj [(''currentUser'', customer), (''currentPassword'', JStr ''hunter2''),
                 (''newPassword'', JStr ''correct horse''), (''customQuery'', JUndefined)])]"
proof -
  have u: "user logged_in = customer"
    by (simp add: logged_in_run)
  show ?thesis
    using u C10_entry_log_ignores_passwords [where st = logged_in and mask_fn = id
        and fp = "fulfilling customer" and p = new_password and a = "JStr ''12345''"
        and b = "JStr ''67890''" and stB = logged_in and fpB = "fulfilling customer"]
    by (simp add: new_password_def)
qed

end
